theory Spec2Isabelle
  imports Main
begin

section \<open>The job store of server.js\<close>

text \<open>
  The development embeds the jobs service of \<^verbatim>\<open>src/server.js\<close> (lines 1-451): the two
  enrichment helpers, the two GitHub helpers \<^verbatim>\<open>readJobsFromGithub\<close> and
  \<^verbatim>\<open>updateGithubJobs\<close>, and the handlers of \<^verbatim>\<open>GET /api/jobs\<close> and
  \<^verbatim>\<open>POST /api/jobs\<close>. Remote calls are explicit: the GitHub file is a component of a
  \<open>world\<close> that every helper takes and returns, together with the log of the calls made
  and the schedule of what the network and other writers do around each call.
\<close>

subsection \<open>JavaScript values\<close>

text \<open>
  Values as they come out of \<^verbatim>\<open>JSON.parse\<close>, \<^verbatim>\<open>express.json()\<close> and the query-string
  parser, plus \<^verbatim>\<open>undefined\<close> for a property that is missing. \<open>Num n\<close> is the number
  that JavaScript reads from the integer literal \<open>n\<close>, that is the double nearest to \<open>n\<close>;
  fractions and \<^verbatim>\<open>NaN\<close> are outside the model.
\<close>

datatype jsval =
    Undefined
  | Null
  | Bool bool
  | Num int
  | Str string
  | Arr "jsval list"
  | Obj "(string \<times> jsval) list"

text \<open>\<^verbatim>\<open>!v\<close> is \<open>\<not> truthy v\<close>; \<^verbatim>\<open>if (v)\<close> tests \<open>truthy v\<close>.\<close>

fun truthy :: "jsval \<Rightarrow> bool" where
  "truthy Undefined = False"
| "truthy Null = False"
| "truthy (Bool b) = b"
| "truthy (Num n) = (n \<noteq> 0)"
| "truthy (Str s) = (s \<noteq> [])"
| "truthy (Arr xs) = True"
| "truthy (Obj kvs) = True"

text \<open>\<^verbatim>\<open>a || b\<close>\<close>

definition js_or :: "jsval \<Rightarrow> jsval \<Rightarrow> jsval" where
  "js_or a b = (if truthy a then a else b)"

text \<open>Decimal digits of a natural number, for \<^verbatim>\<open>String(n)\<close>.\<close>

fun digits :: "nat \<Rightarrow> string" where
  "digits n =
     (if n < 10 then [''0123456789'' ! n]
      else digits (n div 10) @ [''0123456789'' ! (n mod 10)])"

declare digits.simps [simp del]

text \<open>
  The double nearest to a natural number: 53 significant bits, a tie going to the even
  significand. \<open>shift53 n\<close> is the number of low bits that do not fit.
\<close>

fun shift53 :: "nat \<Rightarrow> nat" where
  "shift53 n = (if n < 9007199254740992 then 0 else Suc (shift53 (n div 2)))"

declare shift53.simps [simp del]

definition double_of_nat :: "nat \<Rightarrow> nat" where
  "double_of_nat n =
     (let k = shift53 n; q = n div 2 ^ k; r = n mod 2 ^ k in
      if k = 0 then n
      else if 2 ^ k < 2 * r \<or> (2 * r = 2 ^ k \<and> odd q) then (q + 1) * 2 ^ k
      else q * 2 ^ k)"

definition double_of_int :: "int \<Rightarrow> int" where
  "double_of_int i =
     (if i < 0 then - int (double_of_nat (nat (- i))) else int (double_of_nat (nat i)))"

text \<open>
  The number that \<^verbatim>\<open>String\<close> prints for the double \<open>x\<close>: among the numbers with the
  fewest significant decimal digits that read back as \<open>x\<close>, the one nearest to \<open>x\<close> (of
  two equally near, the one whose digits form an even number). The second argument is the
  power of ten below which digits are dropped, tried from the highest down.
\<close>

fun shortest :: "nat \<Rightarrow> nat \<Rightarrow> nat" where
  "shortest x 0 = x"
| "shortest x (Suc e) =
     (let p = 10 ^ Suc e; lo = (x div p) * p; hi = lo + p;
          okl = (double_of_nat lo = x); okh = (double_of_nat hi = x)
      in if okl \<and> okh then
           (if x - lo < hi - x then lo
            else if hi - x < x - lo then hi
            else if even (x div p) then lo else hi)
         else if okl then lo
         else if okh then hi
         else shortest x e)"

definition strip_zeros :: "string \<Rightarrow> string" where
  "strip_zeros s = rev (dropWhile (\<lambda>c. c = CHR ''0'') (rev s))"

text \<open>
  \<^verbatim>\<open>String(n)\<close> for a number: the digits of the number printed, in full when there are
  at most 21 of them, and otherwise its significant digits with a point after the first
  and the exponent. A literal beyond the largest double reads as \<^verbatim>\<open>Infinity\<close>.
\<close>

definition nat_text :: "nat \<Rightarrow> string" where
  "nat_text n =
     (let x = double_of_nat n in
      if x = 0 then ''0''
      else if 2 ^ 1024 \<le> x then ''Infinity''
      else
        (let v = digits (shortest x (length (digits x) - 1)); s = strip_zeros v in
         if length v \<le> 21 then v
         else (if length s = 1 then s else hd s # ''.'' @ tl s) @ ''e+'' @ digits (length v - 1)))"

definition Number_toString :: "int \<Rightarrow> string" where
  "Number_toString i = (if i < 0 then ''-'' @ nat_text (nat (- i)) else nat_text (nat i))"

fun join :: "string \<Rightarrow> string list \<Rightarrow> string" where
  "join sep [] = []"
| "join sep [s] = s"
| "join sep (s # t # ss) = s @ sep @ join sep (t # ss)"

text \<open>
  How an axios call is rejected: no usable answer (timeout, 5xx, network), 404, 409. Then
  what a JavaScript \<^verbatim>\<open>catch\<close> can receive here.
\<close>

datatype failure = Unavailable | NotFound | VersionConflict

datatype js_error =
    ReferenceError string
  | TypeError
  | RangeError
  | SyntaxError
  | AxiosError failure

text \<open>The texts of the elements of an array in turn; the first conversion that throws ends it.\<close>

fun texts :: "(js_error + string) list \<Rightarrow> js_error + string list" where
  "texts [] = Inr []"
| "texts (Inl err # rs) = Inl err"
| "texts (Inr s # rs) = (case texts rs of Inl err \<Rightarrow> Inl err | Inr ss \<Rightarrow> Inr (s # ss))"

text \<open>
  \<^verbatim>\<open>String(v)\<close>. An array is the comma-joined strings of its elements, where
  \<^verbatim>\<open>null\<close> and \<^verbatim>\<open>undefined\<close> elements give the empty string. A parsed object is
  \<^verbatim>\<open>[object Object]\<close>, unless it has a property \<^verbatim>\<open>toString\<close> of its own: that one hides
  the inherited method and, coming from JSON, is not a function, and the inherited
  \<^verbatim>\<open>valueOf\<close> (or an own one, not a function either) gives no primitive, so the
  conversion throws a TypeError.
\<close>

fun String_js :: "jsval \<Rightarrow> js_error + string" where
  "String_js Undefined = Inr ''undefined''"
| "String_js Null = Inr ''null''"
| "String_js (Bool b) = Inr (if b then ''true'' else ''false'')"
| "String_js (Num n) = Inr (Number_toString n)"
| "String_js (Str s) = Inr s"
| "String_js (Arr xs) =
     (case texts (map (\<lambda>x. if x = Undefined \<or> x = Null then Inr [] else String_js x) xs) of
        Inl err \<Rightarrow> Inl err
      | Inr ss \<Rightarrow> Inr (join '','' ss))"
| "String_js (Obj kvs) =
     (if ''toString'' \<in> set (map fst kvs) then Inl TypeError else Inr ''[object Object]'')"

text \<open>\<^verbatim>\<open>s.startsWith(p)\<close>\<close>

definition startsWith :: "string \<Rightarrow> string \<Rightarrow> bool" where
  "startsWith s p = (take (length p) s = p)"

subsection \<open>Job records\<close>

text \<open>
  The twelve properties that the POST handler destructures from \<^verbatim>\<open>req.body\<close>
  (lines 294-307), the object that \<^verbatim>\<open>express.json()\<close> has parsed; a property the body
  lacks is \<open>Undefined\<close>.
\<close>

record posting =
  title :: jsval
  description :: jsval
  companyName :: jsval
  location :: jsval
  domain :: jsval
  workType :: jsval
  employmentType :: jsval
  userType :: jsval
  salaryRange :: jsval
  applyLink :: jsval
  userId :: jsval
  createdBy :: jsval

text \<open>
  A stored job (the object literal of lines 342-361) has the same twelve properties and
  six more. The field \<open>job_id\<close> is the property \<^verbatim>\<open>id\<close>.
\<close>

record job = posting +
  job_id :: int
  careerLink :: jsval
  companySummary :: jsval
  isSpam :: bool
  createdAt :: string
  updatedAt :: string

text \<open>\<^verbatim>\<open>req.user\<close>, the payload of the verified token (line 190, signed at line 257).\<close>

record auth_user =
  user_userId :: jsval
  username :: jsval

text \<open>
  What \<^verbatim>\<open>JSON.parse\<close> gives for the file: an array of jobs, or some JSON value that is
  not an array. The text of the file either parses or does not. Arrays with an element
  that is not an object with an integer \<^verbatim>\<open>id\<close> are outside the model. A property that
  \<^verbatim>\<open>JSON.stringify\<close> omits because its value is \<^verbatim>\<open>undefined\<close> reads back as
  \<open>Undefined\<close>, so that writing a value and parsing it again gives the value.
\<close>

datatype doc = Jobs "job list" | NonArray

datatype content = NotJson | Json doc

subsection \<open>The remote file and the calls to it\<close>

text \<open>
  \<^verbatim>\<open>data/jobs.json\<close> as the contents API holds it: its decoded content and its
  \<^verbatim>\<open>sha\<close>, the opaque version token. The repository either has the file or not.
\<close>

record github_file =
  content :: content
  sha :: nat

text \<open>The calls that reach the contents API, as logged: a read, or a write of a content with a token.\<close>

datatype call = GET | PUT content nat

text \<open>
  What the surroundings do at one remote call: \<open>others\<close> is what other writers have made
  of the file since the previous call of this request (\<open>None\<close>: nothing), \<open>reachable\<close>
  whether GitHub answers this call, and \<open>assigned\<close> the token GitHub gives the file when
  it accepts a write in this call.
\<close>

record turn =
  others :: "github_file option option"
  reachable :: bool
  assigned :: nat

record world =
  repo :: "github_file option"
  pending :: "turn list"
  log :: "call list"

text \<open>A call with nothing scheduled for it meets a reachable GitHub and no other writer.\<close>

definition idle :: turn where
  "idle = \<lparr>others = None, reachable = True, assigned = 0\<rparr>"

definition next_turn :: "world \<Rightarrow> turn \<times> world" where
  "next_turn w = (case pending w of [] \<Rightarrow> (idle, w) | t # ts \<Rightarrow> (t, w\<lparr>pending := ts\<rparr>))"

definition arrive :: "call \<Rightarrow> world \<Rightarrow> turn \<times> world" where
  "arrive c w =
     (let (t, w1) = next_turn w;
          w2 = (case others t of None \<Rightarrow> w1 | Some r \<Rightarrow> w1\<lparr>repo := r\<rparr>)
      in (t, w2\<lparr>log := log w2 @ [c]\<rparr>))"

text \<open>
  The contents API. A read answers with the file, or 404 when there is none. A write is
  accepted when the token supplied is the file's current token, and then replaces the
  content; otherwise it is rejected and the file stays as it is.
\<close>

definition github_get :: "world \<Rightarrow> (failure + github_file) \<times> world" where
  "github_get w =
     (let (t, w1) = arrive GET w in
      if \<not> reachable t then (Inl Unavailable, w1)
      else case repo w1 of
             None \<Rightarrow> (Inl NotFound, w1)
           | Some f \<Rightarrow> (Inr f, w1))"

definition github_put :: "content \<Rightarrow> nat \<Rightarrow> world \<Rightarrow> (failure + unit) \<times> world" where
  "github_put c s w =
     (let (t, w1) = arrive (PUT c s) w in
      if \<not> reachable t then (Inl Unavailable, w1)
      else case repo w1 of
             None \<Rightarrow> (Inl VersionConflict, w1)
           | Some f \<Rightarrow>
               if sha f = s
               then (Inr (), w1\<lparr>repo := Some \<lparr>content = c, sha = assigned t\<rparr>\<rparr>)
               else (Inl VersionConflict, w1))"

subsection \<open>readJobsFromGithub and updateGithubJobs\<close>

text \<open>
  Lines 115-137. The whole body is inside \<^verbatim>\<open>try\<close>: a rejected request and a
  \<^verbatim>\<open>JSON.parse\<close> that throws both end in \<^verbatim>\<open>return []\<close>. The token of the answer is not
  returned. The result is a sum so that it can be compared with an operation that fails.
\<close>

definition readJobsFromGithub :: "world \<Rightarrow> (js_error + doc) \<times> world" where
  "readJobsFromGithub w =
     (case github_get w of
        (Inl e, w1) \<Rightarrow> (Inr (Jobs []), w1)
      | (Inr response, w1) \<Rightarrow>
          (case content response of
             NotJson \<Rightarrow> (Inr (Jobs []), w1)
           | Json d \<Rightarrow> (Inr d, w1)))"

text \<open>
  Lines 140-179: read the file again for its \<^verbatim>\<open>sha\<close>, write with that one, and rethrow
  whatever either call throws.
\<close>

definition updateGithubJobs :: "doc \<Rightarrow> world \<Rightarrow> (js_error + bool) \<times> world" where
  "updateGithubJobs jobs w =
     (case github_get w of
        (Inl e, w1) \<Rightarrow> (Inl (AxiosError e), w1)
      | (Inr currentFile, w1) \<Rightarrow>
          (case github_put (Json jobs) (sha currentFile) w1 of
             (Inl e, w2) \<Rightarrow> (Inl (AxiosError e), w2)
           | (Inr u, w2) \<Rightarrow> (Inr True, w2)))"

subsection \<open>Enrichment\<close>

text \<open>
  What the outside gives one request: the cleaned text of the career page (\<open>None\<close> when
  fetching or parsing it throws), the summary the model generates and its spam verdict
  after \<^verbatim>\<open>trim().toLowerCase()\<close> (\<open>None\<close> when the model call throws), the two
  readings of the clock at lines 359 and 360, and the number of arguments that the engine
  accepts in one call before it throws a RangeError (it depends on the stack the engine
  has).
\<close>

record env =
  page :: "string option"
  summary :: "string option"
  verdict :: "string option"
  now1 :: string
  now2 :: string
  max_args :: nat

text \<open>
  Lines 19-88. A truthy \<^verbatim>\<open>url\<close> that is not a string has no \<^verbatim>\<open>startsWith\<close>; the
  TypeError is caught like every other error and gives \<^verbatim>\<open>null\<close>.
\<close>

definition scrapeAndSummarizeCareerPage :: "env \<Rightarrow> jsval \<Rightarrow> jsval" where
  "scrapeAndSummarizeCareerPage e url =
     (if \<not> truthy url then Null
      else case url of
        Str u \<Rightarrow>
          (if \<not> startsWith u ''http'' then Null
           else case page e of
             None \<Rightarrow> Null
           | Some cleanedText \<Rightarrow>
               (if cleanedText = [] \<or> length cleanedText < 50 then Null
                else case summary e of
                  None \<Rightarrow> Null
                | Some s \<Rightarrow> (if s = [] then Null else Str s)))
      | _ \<Rightarrow> Null)"

text \<open>Lines 91-111.\<close>

definition detectSpamJob :: "env \<Rightarrow> bool" where
  "detectSpamJob e = (case verdict e of None \<Rightarrow> False | Some t \<Rightarrow> t = ''true'')"

subsection \<open>The handlers\<close>

text \<open>What a handler sends: 201 with the job, 200 with a JSON value, 400, or 500 with the error.\<close>

datatype response =
    Created job
  | Listing doc
  | BadRequest
  | ServerError js_error

fun status :: "response \<Rightarrow> nat" where
  "status (Created j) = 201"
| "status (Listing d) = 200"
| "status BadRequest = 400"
| "status (ServerError e) = 500"

text \<open>
  Line 343: \<^verbatim>\<open>jobs.length > 0 ? Math.max(...jobs.map(job => job.id)) + 1 : 1\<close>. The
  spread passes one argument for each job. The greatest of the ids is a double, and so is
  the sum: beyond 2^53 adding 1 gives the nearest double, which can be the greatest id
  itself.
\<close>

definition new_id :: "env \<Rightarrow> job list \<Rightarrow> js_error + int" where
  "new_id e jobs =
     (if length jobs > 0 then
        (if max_args e < length jobs then Inl RangeError
         else Inr (double_of_int (Max (set (map (\<lambda>job. double_of_int (job_id job)) jobs)) + 1)))
      else Inr 1)"

text \<open>The object literal of lines 342-361, with the value of line 343 as \<open>i\<close>.\<close>

definition newJob ::
  "env \<Rightarrow> auth_user \<Rightarrow> posting \<Rightarrow> jsval \<Rightarrow> jsval \<Rightarrow> bool \<Rightarrow> int \<Rightarrow> job" where
  "newJob e user b careerLink_v companySummary_v isSpam_v i =
     \<lparr>title = title b,
      description = description b,
      companyName = companyName b,
      location = location b,
      domain = domain b,
      workType = workType b,
      employmentType = employmentType b,
      userType = userType b,
      salaryRange = salaryRange b,
      applyLink = applyLink b,
      userId = js_or (userId b) (user_userId user),
      createdBy = js_or (createdBy b) (username user),
      job_id = i,
      careerLink = careerLink_v,
      companySummary = js_or companySummary_v Null,
      isSpam = isSpam_v,
      createdAt = now1 e,
      updatedAt = now2 e\<rparr>"

text \<open>
  Lines 338-373 with the \<^verbatim>\<open>catch\<close> of lines 374-380: read the jobs, build the new job,
  push it, write, answer 201. On a value that is not an array, \<^verbatim>\<open>jobs.length\<close>,
  \<^verbatim>\<open>jobs.map\<close> or \<^verbatim>\<open>jobs.push\<close> throws a TypeError before anything is written.
\<close>

definition append_job ::
  "env \<Rightarrow> auth_user \<Rightarrow> posting \<Rightarrow> jsval \<Rightarrow> jsval \<Rightarrow> bool \<Rightarrow> world \<Rightarrow> response \<times> world" where
  "append_job e user b careerLink_v companySummary_v isSpam_v w =
     (case readJobsFromGithub w of
        (Inl err, w1) \<Rightarrow> (ServerError err, w1)
      | (Inr NonArray, w1) \<Rightarrow> (ServerError TypeError, w1)
      | (Inr (Jobs jobs), w1) \<Rightarrow>
          (case new_id e jobs of
             Inl err \<Rightarrow> (ServerError err, w1)
           | Inr i \<Rightarrow>
               (let j = newJob e user b careerLink_v companySummary_v isSpam_v i in
                case updateGithubJobs (Jobs (jobs @ [j])) w1 of
                  (Inl err, w2) \<Rightarrow> (ServerError err, w2)
                | (Inr ok, w2) \<Rightarrow> (Created j, w2))))"

text \<open>
  The identifiers that the handler uses and does not declare are looked up outside it. A
  \<open>scope\<close> gives the value of such an identifier, or \<open>None\<close> when nothing binds it; reading
  an unbound identifier throws a ReferenceError.
\<close>

type_synonym scope = "string \<Rightarrow> jsval option"

text \<open>
  The handler of \<^verbatim>\<open>POST /api/jobs\<close>, lines 292-381, after \<^verbatim>\<open>authenticateToken\<close> has set
  \<^verbatim>\<open>req.user\<close>. The identifier \<^verbatim>\<open>careerLink\<close> of lines 320-322 and 354 is not among the
  names destructured from the body, so it is read from the scope.
\<close>

definition post_jobs_handler ::
  "scope \<Rightarrow> env \<Rightarrow> auth_user \<Rightarrow> posting \<Rightarrow> world \<Rightarrow> response \<times> world" where
  "post_jobs_handler sc e user b w =
     (if \<not> truthy (title b) \<or> \<not> truthy (description b) \<or> \<not> truthy (companyName b)
      then (BadRequest, w)
      else case sc ''careerLink'' of
        None \<Rightarrow> (ServerError (ReferenceError ''careerLink''), w)
      | Some careerLink_v \<Rightarrow>
          (let companySummary_v =
                 (if truthy careerLink_v then scrapeAndSummarizeCareerPage e careerLink_v
                  else Null);
               isSpam_v = detectSpamJob e
           in append_job e user b careerLink_v companySummary_v isSpam_v w))"

text \<open>
  server.js declares at its top level the modules it requires, \<^verbatim>\<open>app\<close>, \<^verbatim>\<open>port\<close>,
  \<^verbatim>\<open>genAI\<close> and its five helper functions; neither it nor Node binds \<^verbatim>\<open>careerLink\<close>.
\<close>

definition server_scope :: scope where
  "server_scope = (\<lambda>name. None)"

definition POST_api_jobs :: "env \<Rightarrow> auth_user \<Rightarrow> posting \<Rightarrow> world \<Rightarrow> response \<times> world" where
  "POST_api_jobs = post_jobs_handler server_scope"

text \<open>
  \<^verbatim>\<open>jobs.filter(job => String(job.userId) === String(userId))\<close>, line 281: the jobs in
  their order; for each, the \<^verbatim>\<open>userId\<close> of the job is converted first, then the
  parameter. A conversion that throws ends the filter.
\<close>

fun filter_userId :: "jsval \<Rightarrow> job list \<Rightarrow> js_error + job list" where
  "filter_userId q [] = Inr []"
| "filter_userId q (job # jobs) =
     (case String_js (userId job) of
        Inl err \<Rightarrow> Inl err
      | Inr a \<Rightarrow>
          (case String_js q of
             Inl err \<Rightarrow> Inl err
           | Inr b \<Rightarrow>
               (case filter_userId q jobs of
                  Inl err \<Rightarrow> Inl err
                | Inr rest \<Rightarrow> Inr (if a = b then job # rest else rest))))"

text \<open>
  The handler of \<^verbatim>\<open>GET /api/jobs\<close>, lines 274-290; \<open>q\<close> is \<^verbatim>\<open>req.query.userId\<close>. The
  second registration of the route (lines 396-412) has the same body and is never reached,
  since the first one answers every request. \<^verbatim>\<open>jobs.filter\<close> throws a TypeError on a
  value that is not an array.
\<close>

definition GET_api_jobs :: "jsval \<Rightarrow> world \<Rightarrow> response \<times> world" where
  "GET_api_jobs q w =
     (case readJobsFromGithub w of
        (Inl err, w1) \<Rightarrow> (ServerError err, w1)
      | (Inr jobs, w1) \<Rightarrow>
          (if truthy q then
             (case jobs of
                Jobs js \<Rightarrow>
                  (case filter_userId q js of
                     Inl err \<Rightarrow> (ServerError err, w1)
                   | Inr userJobs \<Rightarrow> (Listing (Jobs userJobs), w1))
              | NonArray \<Rightarrow> (ServerError TypeError, w1))
           else (Listing jobs, w1)))"

section \<open>Notions used in the statements\<close>

text \<open>A required property is missing (\<^verbatim>\<open>undefined\<close>) or empty (the empty string).\<close>

definition missing_or_empty :: "jsval \<Rightarrow> bool" where
  "missing_or_empty v = (v = Undefined \<or> v = Str [])"

section \<open>Sample values\<close>

definition posting_A :: posting where
  "posting_A =
     \<lparr>title = Str ''A'', description = Str ''d'', companyName = Str ''C'',
      location = Undefined, domain = Undefined, workType = Undefined,
      employmentType = Undefined, userType = Undefined, salaryRange = Undefined,
      applyLink = Undefined, userId = Undefined, createdBy = Undefined\<rparr>"

definition posting_B :: posting where
  "posting_B = posting_A\<lparr>title := Str ''B''\<rparr>"

definition user_7 :: auth_user where
  "user_7 = \<lparr>user_userId = Num 7, username = Str ''u''\<rparr>"

text \<open>Every enrichment call throws.\<close>

definition env_down :: env where
  "env_down =
     \<lparr>page = None, summary = None, verdict = None, now1 = ''t1'', now2 = ''t2'',
      max_args = 100000\<rparr>"

definition job_1 :: job where
  "job_1 = newJob env_down user_7 posting_A Undefined Null False 1"

definition job_2 :: job where
  "job_2 = newJob env_down user_7 posting_B Undefined Null False 2"

text \<open>The job that a request with \<open>posting_B\<close> builds when its read returns the empty array.\<close>

definition lone_B :: job where
  "lone_B = newJob env_down user_7 posting_B Undefined Null False 1"

text \<open>A job of another writer, and the file as that writer leaves it.\<close>

definition job_x :: job where
  "job_x = newJob env_down user_7 (posting_A\<lparr>title := Str ''X''\<rparr>) Undefined Null False 2"

definition file_x :: github_file where
  "file_x = \<lparr>content = Json (Jobs [job_1, job_x]), sha = 6\<rparr>"

definition file_1 :: github_file where
  "file_1 = \<lparr>content = Json (Jobs [job_1]), sha = 5\<rparr>"

text \<open>The file holds one job; nothing is scheduled, so every call is answered and nobody else writes.\<close>

definition world_1 :: world where
  "world_1 = \<lparr>repo = Some file_1, pending = [], log = []\<rparr>"


text \<open>
  Three jobs whose \<^verbatim>\<open>userId\<close> is the number 42, the number 7 and the string \<^verbatim>\<open>42\<close>, and
  the file that holds them.
\<close>

definition job_n42 :: job where
  "job_n42 = job_1\<lparr>userId := Num 42\<rparr>"

definition job_s42 :: job where
  "job_s42 = job_1\<lparr>userId := Str ''42'', job_id := 3\<rparr>"

definition world_users :: world where
  "world_users =
     \<lparr>repo = Some \<lparr>content = Json (Jobs [job_n42, job_2, job_s42]), sha = 5\<rparr>,
      pending = [], log = []\<rparr>"

text \<open>The file of \<open>world_1\<close>, with GitHub not answering the first call of the request.\<close>

definition world_down_once :: world where
  "world_down_once =
     \<lparr>repo = Some file_1,
      pending = [\<lparr>others = None, reachable = False, assigned = 0\<rparr>],
      log = []\<rparr>"

text \<open>The same file, with another writer committing \<open>job_x\<close> between the first and the second call.\<close>

definition world_raced :: world where
  "world_raced =
     \<lparr>repo = Some file_1,
      pending = [idle, \<lparr>others = Some (Some file_x), reachable = True, assigned = 0\<rparr>],
      log = []\<rparr>"

text \<open>The same file, with the other writer committing between the second and the third call.\<close>

definition world_conflict :: world where
  "world_conflict =
     \<lparr>repo = Some file_1,
      pending = [idle, idle, \<lparr>others = Some (Some file_x), reachable = True, assigned = 0\<rparr>],
      log = []\<rparr>"

text \<open>A file whose text is not JSON.\<close>

definition world_garbage :: world where
  "world_garbage = \<lparr>repo = Some \<lparr>content = NotJson, sha = 5\<rparr>, pending = [], log = []\<rparr>"

text \<open>A job whose \<^verbatim>\<open>id\<close> is 2^53.\<close>

definition job_big :: job where
  "job_big = job_1\<lparr>job_id := 9007199254740992\<rparr>"

section \<open>The remote calls\<close>

lemma next_turn_pending: "next_turn w = (t, w1) \<Longrightarrow> pending w1 = tl (pending w) \<and> repo w1 = repo w \<and> log w1 = log w"
  by (auto simp: next_turn_def split: list.splits)

lemma arrive_log: "arrive c w = (t, w1) \<Longrightarrow> log w1 = log w @ [c] \<and> pending w1 = tl (pending w)"
  by (auto simp: arrive_def Let_def split: prod.splits option.splits dest: next_turn_pending)

lemma github_get_log: "github_get w = (r, w1) \<Longrightarrow> log w1 = log w @ [GET] \<and> pending w1 = tl (pending w)"
  by (auto simp: github_get_def Let_def split: prod.splits option.splits if_splits dest: arrive_log)

lemma github_get_Inr: "github_get w = (Inr f, w1) \<Longrightarrow> repo w1 = Some f"
  by (auto simp: github_get_def Let_def split: prod.splits option.splits if_splits)

lemma github_put_log:
  "github_put c s w = (r, w1) \<Longrightarrow> log w1 = log w @ [PUT c s] \<and> pending w1 = tl (pending w)"
  by (auto simp: github_put_def Let_def split: prod.splits option.splits if_splits dest: arrive_log)

lemma github_put_Inr: "github_put c s w = (Inr u, w1) \<Longrightarrow> \<exists>t. repo w1 = Some \<lparr>content = c, sha = t\<rparr>"
  by (auto simp: github_put_def Let_def split: prod.splits option.splits if_splits)

lemma github_put_Inl:
  "github_put c s w = (Inl err, w1) \<Longrightarrow> arrive (PUT c s) w = (t, w0) \<Longrightarrow> w1 = w0"
  by (auto simp: github_put_def Let_def split: prod.splits option.splits if_splits)

lemma readJobsFromGithub_log:
  "readJobsFromGithub w = (r, w1) \<Longrightarrow> log w1 = log w @ [GET] \<and> pending w1 = tl (pending w)"
  by (auto simp: readJobsFromGithub_def split: prod.splits sum.splits content.splits
      dest: github_get_log)

lemma readJobsFromGithub_world: "readJobsFromGithub w = (r, w1) \<Longrightarrow> w1 = snd (github_get w)"
  by (auto simp: readJobsFromGithub_def split: prod.splits sum.splits content.splits)

lemma updateGithubJobs_Inr:
  assumes "updateGithubJobs d w = (Inr ok, w2)"
  shows "\<exists>f w1. github_get w = (Inr f, w1) \<and> github_put (Json d) (sha f) w1 = (Inr (), w2)"
  using assms by (auto simp: updateGithubJobs_def split: prod.splits sum.splits)

lemma updateGithubJobs_puts:
  assumes "updateGithubJobs d w = (r, w2)" and "PUT c s \<in> set (log w2)" and "PUT c s \<notin> set (log w)"
  shows "\<exists>f w1. github_get w = (Inr f, w1) \<and> c = Json d \<and> s = sha f \<and> log w2 = log w @ [GET, PUT c s]"
  using assms
  by (auto simp: updateGithubJobs_def split: prod.splits sum.splits dest!: github_get_log github_put_log)

lemmas remote_defs =
  readJobsFromGithub_def updateGithubJobs_def github_get_def github_put_def
  arrive_def next_turn_def idle_def Let_def

section \<open>A read that is answered\<close>



lemma readJobsFromGithub_never_throws: "\<exists>d w1. readJobsFromGithub w = (Inr d, w1)"
  by (auto simp: readJobsFromGithub_def split: prod.splits sum.splits content.splits)

section \<open>Numbers\<close>

lemma shift53_small: "n < 9007199254740992 \<Longrightarrow> shift53 n = 0"
  by (simp add: shift53.simps)

lemma double_of_nat_small: "n < 9007199254740992 \<Longrightarrow> double_of_nat n = n"
  by (simp add: double_of_nat_def shift53_small)

lemma double_of_int_small: "\<bar>i\<bar> < 9007199254740992 \<Longrightarrow> double_of_int i = i"
  by (auto simp: double_of_int_def double_of_nat_small)

lemma Number_toString_7: "Number_toString 7 = ''7''"
  by (simp add: Number_toString_def nat_text_def double_of_nat_small digits.simps)

lemma Number_toString_42: "Number_toString 42 = ''42''"
  by (simp add: Number_toString_def nat_text_def double_of_nat_small digits.simps)

text \<open>Adding 1 to 2^53 gives 2^53: the sum lies midway between two doubles, and 2^53 is the even one.\<close>

lemma shift53_2_53_plus_1: "shift53 9007199254740993 = 1"
  by (simp add: shift53.simps)

lemma shift53_2_53: "shift53 9007199254740992 = 1"
  by (simp add: shift53.simps)

lemma double_of_int_2_53_plus_1: "double_of_int 9007199254740993 = 9007199254740992"
  by (simp add: double_of_int_def double_of_nat_def shift53_2_53_plus_1)

lemma double_of_int_2_53: "double_of_int 9007199254740992 = 9007199254740992"
  by (simp add: double_of_int_def double_of_nat_def shift53_2_53)

section \<open>The POST handler makes no call\<close>



section \<open>Enrichment absorbs its failures\<close>

lemma scrape_failure_gives_null:
  "page e = None \<or> summary e = None \<Longrightarrow> scrapeAndSummarizeCareerPage e url = Null"
  by (auto simp: scrapeAndSummarizeCareerPage_def split: jsval.splits option.splits)

lemma detectSpamJob_failure_gives_false: "verdict e = None \<Longrightarrow> \<not> detectSpamJob e"
  by (simp add: detectSpamJob_def)

section \<open>The sample values\<close>

lemma job_1_neq_lone_B: "job_1 \<noteq> lone_B"
  by (simp add: job_1_def lone_B_def newJob_def posting_A_def posting_B_def)

lemma job_ids: "job_id job_1 = 1" "job_id job_2 = 2"
  by (simp_all add: job_1_def job_2_def newJob_def)



lemma read_world_users:
  "readJobsFromGithub world_users
     = (Inr (Jobs [job_n42, job_2, job_s42]), world_users\<lparr>log := [GET]\<rparr>)"
  by (simp add: remote_defs world_users_def)

lemma user_of_job_1: "userId job_1 = Num 7"
  by (simp add: job_1_def newJob_def posting_A_def user_7_def js_or_def)

lemma users_of_jobs:
  "userId job_n42 = Num 42" "userId job_2 = Num 7" "userId job_s42 = Str ''42''"
  by (simp_all add: job_n42_def job_2_def job_s42_def newJob_def posting_A_def posting_B_def
      user_7_def js_or_def)

section \<open>The lines after careerLink\<close>

text \<open>
  The lemmas of this section are about \<open>append_job\<close>, lines 338-373. The handler as the
  server has it stops before them (\<open>POST_api_jobs_cases\<close>); \<open>post_jobs_handler\<close> gets to
  them in a scope that binds \<^verbatim>\<open>careerLink\<close>.
\<close>

lemma new_id_sample [simp]:
  "new_id env_down [] = Inr 1" "new_id env_down [job_1] = Inr 2"
  "new_id env_down [job_1, job_2] = Inr 3"
  by (simp_all add: new_id_def env_down_def job_ids double_of_int_small)

text \<open>At a stored id of 2^53 line 343 gives 2^53 again.\<close>

lemma new_id_repeats_at_2_53: "new_id env_down [job_big] = Inr (job_id job_big)"
  by (simp add: new_id_def env_down_def job_big_def double_of_int_2_53
      double_of_int_2_53_plus_1)

lemma new_id_above:
  assumes "new_id e jobs = Inr i" and "x \<in> set jobs"
    and "\<forall>y\<in>set jobs. \<bar>job_id y\<bar> < 9007199254740992"
  shows "job_id x < i"
proof -
  let ?ids = "set (map (\<lambda>job. double_of_int (job_id job)) jobs)"
  from assms(3) have same: "?ids = set (map job_id jobs)"
    by (auto simp: double_of_int_small)
  from assms(2) have "job_id x \<in> set (map job_id jobs)" by simp
  then have le: "job_id x \<le> Max ?ids" unfolding same by (intro Max_ge) simp_all
  from assms(2) have ne: "length jobs > 0" by (cases jobs) auto
  from assms(2,3) have "\<bar>job_id x\<bar> < 9007199254740992" by blast
  have "Max ?ids \<in> ?ids" using ne by (intro Max_in) auto
  then obtain y where "y \<in> set jobs" and "Max ?ids = job_id y"
    unfolding same by auto
  with assms(3) have "\<bar>Max ?ids\<bar> < 9007199254740992" by auto
  then have "\<bar>Max ?ids + 1\<bar> < 9007199254740992 \<or> Max ?ids + 1 = 9007199254740992"
    by arith
  then have "double_of_int (Max ?ids + 1) = Max ?ids + 1"
    using double_of_int_small double_of_int_2_53 by auto
  with assms(1) ne have "i = Max ?ids + 1"
    by (auto simp: new_id_def split: if_splits)
  with le show ?thesis by simp
qed

text \<open>A 201: the array read with the new job at its end is what is written.\<close>

lemma append_job_Created:
  assumes "append_job e user b c s p w = (Created j, w')"
  shows "\<exists>jobs w1 i t t'.
           readJobsFromGithub w = (Inr (Jobs jobs), w1)
           \<and> new_id e jobs = Inr i
           \<and> j = newJob e user b c s p i
           \<and> log w' = log w @ [GET, GET, PUT (Json (Jobs (jobs @ [j]))) t]
           \<and> repo w' = Some \<lparr>content = Json (Jobs (jobs @ [j])), sha = t'\<rparr>"
proof -
  from assms obtain jobs w1 i ok where
    rd: "readJobsFromGithub w = (Inr (Jobs jobs), w1)" and
    ni: "new_id e jobs = Inr i" and
    up: "updateGithubJobs (Jobs (jobs @ [newJob e user b c s p i])) w1 = (Inr ok, w')" and
    j: "j = newJob e user b c s p i"
    by (auto simp: append_job_def Let_def split: prod.splits sum.splits doc.splits)
  from updateGithubJobs_Inr [OF up] obtain f w2 where
    g: "github_get w1 = (Inr f, w2)" and
    pt: "github_put (Json (Jobs (jobs @ [j]))) (sha f) w2 = (Inr (), w')"
    using j by auto
  have "log w1 = log w @ [GET]"
    using readJobsFromGithub_log [OF rd] by simp
  moreover have "log w2 = log w1 @ [GET]"
    using github_get_log [OF g] by simp
  moreover have "log w' = log w2 @ [PUT (Json (Jobs (jobs @ [j]))) (sha f)]"
    using github_put_log [OF pt] by simp
  ultimately have lg: "log w' = log w @ [GET, GET, PUT (Json (Jobs (jobs @ [j]))) (sha f)]"
    by simp
  from github_put_Inr [OF pt] obtain t' where
    "repo w' = Some \<lparr>content = Json (Jobs (jobs @ [j])), sha = t'\<rparr>" by auto
  with rd ni j lg show ?thesis by blast
qed

text \<open>A rejected write is rethrown at once: no further call is made.\<close>

lemma append_job_conflict:
  assumes "readJobsFromGithub w = (Inr (Jobs jobs), w1)"
    and "new_id e jobs = Inr i"
    and "github_get w1 = (Inr f, w2)"
    and "github_put (Json (Jobs (jobs @ [newJob e user b c s p i]))) (sha f) w2
           = (Inl VersionConflict, w3)"
  shows "append_job e user b c s p w = (ServerError (AxiosError VersionConflict), w3)
         \<and> log w3 = log w @ [GET, GET,
               PUT (Json (Jobs (jobs @ [newJob e user b c s p i]))) (sha f)]"
proof -
  have up: "updateGithubJobs (Jobs (jobs @ [newJob e user b c s p i])) w1
              = (Inl (AxiosError VersionConflict), w3)"
    using assms(3,4) by (simp add: updateGithubJobs_def)
  then have "append_job e user b c s p w = (ServerError (AxiosError VersionConflict), w3)"
    using assms(1,2) by (simp add: append_job_def Let_def)
  moreover have "log w1 = log w @ [GET]"
    using readJobsFromGithub_log [OF assms(1)] by simp
  moreover have "log w2 = log w1 @ [GET]"
    using github_get_log [OF assms(3)] by simp
  moreover have "log w3 = log w2 @ [PUT (Json (Jobs (jobs @ [newJob e user b c s p i]))) (sha f)]"
    using github_put_log [OF assms(4)] by simp
  ultimately show ?thesis by simp
qed

text \<open>Runs of these lines: a quiet one, one after a failed read, one with a writer in between.\<close>

lemma append_world_1:
  "append_job env_down user_7 posting_B Undefined Null False world_1
     = (Created job_2,
        \<lparr>repo = Some \<lparr>content = Json (Jobs [job_1, job_2]), sha = 0\<rparr>,
         pending = [],
         log = [GET, GET, PUT (Json (Jobs [job_1, job_2])) 5]\<rparr>)"
  by (simp add: append_job_def remote_defs world_1_def file_1_def job_2_def)

lemma append_world_down_once:
  "append_job env_down user_7 posting_B Undefined Null False world_down_once
     = (Created lone_B,
        \<lparr>repo = Some \<lparr>content = Json (Jobs [lone_B]), sha = 0\<rparr>,
         pending = [],
         log = [GET, GET, PUT (Json (Jobs [lone_B])) 5]\<rparr>)"
  by (simp add: append_job_def remote_defs world_down_once_def file_1_def lone_B_def)

lemma append_world_raced:
  "append_job env_down user_7 posting_B Undefined Null False world_raced
     = (Created job_2,
        \<lparr>repo = Some \<lparr>content = Json (Jobs [job_1, job_2]), sha = 0\<rparr>,
         pending = [],
         log = [GET, GET, PUT (Json (Jobs [job_1, job_2])) 6]\<rparr>)"
  by (simp add: append_job_def remote_defs world_raced_def file_1_def file_x_def job_2_def)

lemma append_world_conflict:
  "append_job env_down user_7 posting_B Undefined Null False world_conflict
     = (ServerError (AxiosError VersionConflict),
        \<lparr>repo = Some file_x,
         pending = [],
         log = [GET, GET, PUT (Json (Jobs [job_1, job_2])) 5]\<rparr>)"
  by (simp add: append_job_def remote_defs world_conflict_def file_1_def file_x_def job_2_def)

text \<open>With \<^verbatim>\<open>careerLink\<close> bound, the same request with every enrichment call failing is stored.\<close>

lemma bound_careerLink_append_succeeds:
  "post_jobs_handler (\<lambda>name. if name = ''careerLink'' then Some (Str ''http://c'') else None)
     env_down user_7 posting_B world_1
   = (Created (job_2\<lparr>careerLink := Str ''http://c''\<rparr>),
      \<lparr>repo = Some \<lparr>content = Json (Jobs [job_1, job_2\<lparr>careerLink := Str ''http://c''\<rparr>]), sha = 0\<rparr>,
       pending = [],
       log = [GET, GET, PUT (Json (Jobs [job_1, job_2\<lparr>careerLink := Str ''http://c''\<rparr>])) 5]\<rparr>)"
proof -
  have sc: "scrapeAndSummarizeCareerPage env_down (Str ''http://c'') = Null"
    by (rule scrape_failure_gives_null) (simp add: env_down_def)
  have sp: "detectSpamJob env_down = False"
    using detectSpamJob_failure_gives_false [of env_down] by (simp add: env_down_def)
  have tr: "truthy (title posting_B)" "truthy (description posting_B)"
    "truthy (companyName posting_B)"
    by (simp_all add: posting_B_def posting_A_def)
  show ?thesis
    by (simp add: post_jobs_handler_def tr sc sp append_job_def remote_defs world_1_def
        file_1_def job_2_def newJob_def)
qed

section \<open>The filter of the GET handler\<close>

lemma filter_userId_converted:
  assumes "String_js q = Inr s" and "\<forall>job\<in>set js. \<exists>t. String_js (userId job) = Inr t"
  shows "filter_userId q js = Inr (filter (\<lambda>job. String_js (userId job) = Inr s) js)"
  using assms(2)
proof (induction js)
  case Nil
  show ?case by simp
next
  case (Cons job js)
  then obtain t where t: "String_js (userId job) = Inr t" by auto
  from Cons have "filter_userId q js = Inr (filter (\<lambda>job. String_js (userId job) = Inr s) js)"
    by simp
  with t assms(1) show ?case by simp
qed

text \<open>A job whose \<^verbatim>\<open>userId\<close> cannot be converted makes the filter throw.\<close>

lemma filter_userId_throws:
  "job \<in> set js \<Longrightarrow> String_js (userId job) = Inl err \<Longrightarrow> \<exists>err'. filter_userId q js = Inl err'"
  by (induction js) (auto split: sum.splits)

section \<open>The POST handler stops at careerLink\<close>

text \<open>
  C3. For every authenticated \<^verbatim>\<open>POST /api/jobs\<close> whose body has a title, a description and
  a company name, the handler reads the unbound identifier \<^verbatim>\<open>careerLink\<close> before any
  enrichment and before any call to GitHub: it answers 500 with the ReferenceError, never
  201, and the file, the schedule and the log of calls are as they were.
\<close>

theorem post_stops_at_careerLink:
  assumes "truthy (title b)" and "truthy (description b)" and "truthy (companyName b)"
  shows "POST_api_jobs e user b w = (ServerError (ReferenceError ''careerLink''), w)
         \<and> status (fst (POST_api_jobs e user b w)) = 500
         \<and> status (fst (POST_api_jobs e user b w)) \<noteq> 201
         \<and> log (snd (POST_api_jobs e user b w)) = log w
         \<and> repo (snd (POST_api_jobs e user b w)) = repo w"
  using assms by (simp add: POST_api_jobs_def post_jobs_handler_def server_scope_def)

theorem post_stops_at_careerLink_witness:
  "truthy (title posting_A) \<and> truthy (description posting_A) \<and> truthy (companyName posting_A)
   \<and> POST_api_jobs env_down user_7 posting_A world_1
       = (ServerError (ReferenceError ''careerLink''), world_1)
   \<and> status (fst (POST_api_jobs env_down user_7 posting_A world_1)) = 500"
  using post_stops_at_careerLink [of posting_A env_down user_7 world_1]
  by (simp add: posting_A_def)

section \<open>Validation\<close>

lemma missing_or_empty_falsy: "missing_or_empty v \<Longrightarrow> \<not> truthy v"
  by (auto simp: missing_or_empty_def)

lemma falsy_required_400:
  "\<not> truthy (title b) \<or> \<not> truthy (description b) \<or> \<not> truthy (companyName b) \<Longrightarrow>
   post_jobs_handler sc e user b w = (BadRequest, w)"
  by (auto simp: post_jobs_handler_def)

text \<open>
  C8. When the title, the description or the company name of the body is missing or empty,
  the handler answers 400 whatever the scope, and has made no call to GitHub: the world
  (file, schedule, log of calls) is returned as it was.
\<close>

theorem missing_required_field_400:
  assumes "missing_or_empty (title b) \<or> missing_or_empty (description b)
           \<or> missing_or_empty (companyName b)"
  shows "post_jobs_handler sc e user b w = (BadRequest, w)
         \<and> POST_api_jobs e user b w = (BadRequest, w)
         \<and> status (fst (POST_api_jobs e user b w)) = 400"
proof -
  from assms have falsy:
    "\<not> truthy (title b) \<or> \<not> truthy (description b) \<or> \<not> truthy (companyName b)"
    using missing_or_empty_falsy by blast
  have "post_jobs_handler sc' e user b w = (BadRequest, w)" for sc'
    using falsy by (rule falsy_required_400)
  then show ?thesis
    by (simp add: POST_api_jobs_def)
qed

theorem missing_required_field_400_witness:
  "missing_or_empty (description (posting_A\<lparr>description := Str []\<rparr>))
   \<and> POST_api_jobs env_down user_7 (posting_A\<lparr>description := Str []\<rparr>) world_1
       = (BadRequest, world_1)
   \<and> log world_1 = []"
  using missing_required_field_400
    [of "posting_A\<lparr>description := Str []\<rparr>" server_scope env_down user_7 world_1]
  by (simp add: missing_or_empty_def world_1_def)

section \<open>Jobs already stored\<close>



section \<open>The identifier of a new job\<close>


section \<open>What an append writes\<close>


section \<open>Reading never fails\<close>

text \<open>
  C5, as stated, fails. With a file whose text is not JSON, and with a file that is there
  while GitHub does not answer, \<^verbatim>\<open>readJobsFromGithub\<close> returns the empty array: no error
  reaches the caller, and the empty array is returned although the file is not absent.
\<close>

theorem read_failures_give_empty_array:
  "repo world_garbage = Some \<lparr>content = NotJson, sha = 5\<rparr>
   \<and> fst (readJobsFromGithub world_garbage) = Inr (Jobs [])
   \<and> repo world_down_once = Some file_1
   \<and> fst (github_get world_down_once) = Inl Unavailable
   \<and> fst (readJobsFromGithub world_down_once) = Inr (Jobs [])"
  by (simp add: remote_defs world_garbage_def world_down_once_def)

text \<open>
  C5, amended. \<^verbatim>\<open>readJobsFromGithub\<close> never fails and makes one call, with no retry. It
  returns the empty array when the call is rejected (GitHub not answering, or the file
  not found) and when the text of the file is not JSON; otherwise it returns the parsed
  value as it is, array or not.
\<close>

theorem read_never_fails:
  "\<exists>d w1. readJobsFromGithub w = (Inr d, w1)
     \<and> w1 = snd (github_get w)
     \<and> log w1 = log w @ [GET]
     \<and> d = (case fst (github_get w) of
              Inl rejected \<Rightarrow> Jobs []
            | Inr f \<Rightarrow> (case content f of NotJson \<Rightarrow> Jobs [] | Json parsed \<Rightarrow> parsed))"
proof -
  obtain r w1 where g: "github_get w = (r, w1)" by (cases "github_get w")
  have "log w1 = log w @ [GET]" using github_get_log [OF g] by simp
  with g show ?thesis
    by (auto simp: readJobsFromGithub_def split: sum.splits content.splits)
qed

theorem read_never_fails_witness:
  "\<exists>d w1. readJobsFromGithub world_1 = (Inr d, w1) \<and> log w1 = [GET] \<and> d = Jobs [job_1]"
proof -
  have g: "github_get world_1 = (Inr file_1, world_1\<lparr>log := [GET]\<rparr>)"
    by (simp add: remote_defs world_1_def)
  from read_never_fails [of world_1] show ?thesis
    by (simp add: g file_1_def)
qed

section \<open>Listing the jobs of a user\<close>

text \<open>
  C10, as stated, fails. A request with the parameter present and empty
  (\<^verbatim>\<open>/api/jobs?userId=\<close>) is answered with every job, although for no job the string of
  its \<^verbatim>\<open>userId\<close> is the empty string: the filter of line 281 with the empty string
  keeps none of them.
\<close>

theorem empty_userId_lists_every_job:
  "GET_api_jobs (Str []) world_users
     = (Listing (Jobs [job_n42, job_2, job_s42]), world_users\<lparr>log := [GET]\<rparr>)
   \<and> map (\<lambda>job. String_js (userId job)) [job_n42, job_2, job_s42]
        = [Inr ''42'', Inr ''7'', Inr ''42'']
   \<and> String_js (Str []) = Inr []
   \<and> filter_userId (Str []) [job_n42, job_2, job_s42] = Inr []"
  using read_world_users
  by (simp add: GET_api_jobs_def users_of_jobs Number_toString_7 Number_toString_42)

text \<open>
  C10, amended. Let the read return an array of jobs. When \<^verbatim>\<open>req.query.userId\<close> is truthy
  (in particular a non-empty string) and \<^verbatim>\<open>String\<close> throws neither on it nor on the
  \<^verbatim>\<open>userId\<close> of a job, the answer is exactly the jobs whose \<^verbatim>\<open>userId\<close>, converted to a
  string, equals the parameter converted to a string, in their order; a stored number 42
  matches the parameter \<^verbatim>\<open>42\<close>. When the parameter is absent or empty, the answer is
  every job.
\<close>

theorem get_jobs_filters_on_nonempty_userId:
  assumes "readJobsFromGithub w = (Inr (Jobs js), w1)"
  shows "(truthy q \<and> String_js q = Inr s
            \<and> (\<forall>job\<in>set js. \<exists>t. String_js (userId job) = Inr t) \<longrightarrow>
            GET_api_jobs q w
              = (Listing (Jobs (filter (\<lambda>job. String_js (userId job) = Inr s) js)), w1))
         \<and> (q = Undefined \<or> q = Str [] \<longrightarrow> GET_api_jobs q w = (Listing (Jobs js), w1))
         \<and> (\<forall>u. u \<noteq> [] \<longrightarrow> truthy (Str u) \<and> String_js (Str u) = Inr u)
         \<and> String_js (Num 42) = String_js (Str ''42'')"
proof (intro conjI impI allI)
  assume h: "truthy q \<and> String_js q = Inr s
    \<and> (\<forall>job\<in>set js. \<exists>t. String_js (userId job) = Inr t)"
  then have "filter_userId q js = Inr (filter (\<lambda>job. String_js (userId job) = Inr s) js)"
    by (intro filter_userId_converted) simp_all
  with h assms show "GET_api_jobs q w
      = (Listing (Jobs (filter (\<lambda>job. String_js (userId job) = Inr s) js)), w1)"
    by (simp add: GET_api_jobs_def)
next
  assume "q = Undefined \<or> q = Str []"
  with assms show "GET_api_jobs q w = (Listing (Jobs js), w1)"
    by (auto simp: GET_api_jobs_def)
next
  fix u :: string
  assume "u \<noteq> []"
  then show "truthy (Str u)" by simp
next
  fix u :: string
  show "String_js (Str u) = Inr u" by simp
next
  show "String_js (Num 42) = String_js (Str ''42'')"
    by (simp add: Number_toString_42)
qed

theorem get_jobs_filters_on_nonempty_userId_witness:
  "readJobsFromGithub world_users
     = (Inr (Jobs [job_n42, job_2, job_s42]), world_users\<lparr>log := [GET]\<rparr>)
   \<and> truthy (Str ''42'')
   \<and> String_js (Str ''42'') = Inr ''42''
   \<and> map (\<lambda>job. String_js (userId job)) [job_n42, job_2, job_s42]
        = [Inr ''42'', Inr ''7'', Inr ''42'']
   \<and> GET_api_jobs (Str ''42'') world_users
        = (Listing (Jobs [job_n42, job_s42]), world_users\<lparr>log := [GET]\<rparr>)
   \<and> GET_api_jobs Undefined world_users
        = (Listing (Jobs [job_n42, job_2, job_s42]), world_users\<lparr>log := [GET]\<rparr>)"
  using get_jobs_filters_on_nonempty_userId [OF read_world_users, of "Str ''42''" "''42''"]
    get_jobs_filters_on_nonempty_userId [OF read_world_users, of Undefined "''42''"]
    read_world_users
  by (simp add: users_of_jobs Number_toString_7 Number_toString_42)

section \<open>Enrichment that fails\<close>

text \<open>
  C6 at a request whose enrichment calls all throw. The two helpers absorb the failures
  (\<^verbatim>\<open>null\<close> and \<^verbatim>\<open>false\<close>), but the handler never gets to call them: it answers 500 at
  the unbound \<^verbatim>\<open>careerLink\<close>, and no job is stored.
\<close>

theorem failed_enrichment_post_answers_500:
  "page env_down = None \<and> summary env_down = None \<and> verdict env_down = None
   \<and> scrapeAndSummarizeCareerPage env_down (Str ''http://c'') = Null
   \<and> detectSpamJob env_down = False
   \<and> POST_api_jobs env_down user_7 posting_B world_1
        = (ServerError (ReferenceError ''careerLink''), world_1)
   \<and> status (fst (POST_api_jobs env_down user_7 posting_B world_1)) = 500
   \<and> repo (snd (POST_api_jobs env_down user_7 posting_B world_1)) = Some file_1"
  by (simp add: POST_api_jobs_def post_jobs_handler_def server_scope_def posting_B_def
      posting_A_def scrapeAndSummarizeCareerPage_def detectSpamJob_def env_down_def
      startsWith_def world_1_def)

end
